theory Spec2Isabelle
  imports Complex_Main
begin

section \<open>JavaScript values\<close>

text \<open>
  The route handlers of \<^verbatim>\<open>server.js\<close> work on parsed request bodies, on the gateway's
  parsed response and on the objects they build themselves. All of these are JSON-shaped
  JavaScript values: \<^verbatim>\<open>undefined\<close>, \<^verbatim>\<open>null\<close>, booleans, numbers, strings, arrays and
  plain objects. An object is the list of its own properties in property order (a
  well-formed object has distinct keys; a lookup takes the first binding). Numbers are
  the integers, which \<^verbatim>\<open>Number.prototype.toString\<close> and \<^verbatim>\<open>JSON.stringify\<close> print in plain
  decimal (below \<open>10\<^sup>2\<^sup>1\<close>); a fractional number is outside the model. The handlers
  use of a number only whether it is zero and how it prints. Strings are byte lists.
\<close>

datatype json =
    JUndefined
  | JNull
  | JBool bool
  | JNum int
  | JStr string
  | JArr "json list"
  | JObj "(string \<times> json) list"

type_synonym obj = "(string \<times> json) list"

text \<open>
  A thrown value, seen through the two expressions the \<^verbatim>\<open>catch\<close> blocks read:
  \<^verbatim>\<open>err.message\<close> and \<^verbatim>\<open>err?.response?.data\<close>.
\<close>

datatype exn = Exn (message: json) (response_data: json)

definition TypeError :: "string \<Rightarrow> exn" where
  "TypeError msg = Exn (JStr msg) JUndefined"

text \<open>ToBoolean: what \<^verbatim>\<open>!x\<close>, \<^verbatim>\<open>if (x)\<close> and \<^verbatim>\<open>x || y\<close> test.\<close>

fun truthy :: "json \<Rightarrow> bool" where
  "truthy JUndefined = False"
| "truthy JNull = False"
| "truthy (JBool b) = b"
| "truthy (JNum n) = (n \<noteq> 0)"
| "truthy (JStr s) = (s \<noteq> [])"
| "truthy (JArr xs) = True"
| "truthy (JObj kvs) = True"

fun nullish :: "json \<Rightarrow> bool" where
  "nullish JUndefined = True"
| "nullish JNull = True"
| "nullish v = False"

text \<open>\<^verbatim>\<open>a || b\<close> on values.\<close>

definition js_or :: "json \<Rightarrow> json \<Rightarrow> json" where
  "js_or a b = (if truthy a then a else b)"

text \<open>Reading an own property of an object: the value, or \<^verbatim>\<open>undefined\<close>.\<close>

definition lookup :: "obj \<Rightarrow> string \<Rightarrow> json" where
  "lookup kvs k = (case map_of kvs k of None \<Rightarrow> JUndefined | Some v \<Rightarrow> v)"

text \<open>\<^verbatim>\<open>delete o.k\<close>.\<close>

definition delete_key :: "string \<Rightarrow> obj \<Rightarrow> obj" where
  "delete_key k kvs = filter (\<lambda>kv. fst kv \<noteq> k) kvs"

text \<open>
  \<^verbatim>\<open>v.k\<close>: a TypeError on \<^verbatim>\<open>undefined\<close> and \<^verbatim>\<open>null\<close> (V8's wording), the own property
  on an object, \<^verbatim>\<open>undefined\<close> on a primitive or an array. The handlers read only the names
  \<^verbatim>\<open>body\<close>, \<^verbatim>\<open>resultInfo\<close>, \<^verbatim>\<open>resultStatus\<close> and \<^verbatim>\<open>txnToken\<close> this way, none of which a
  prototype defines.
\<close>

definition cannot_read :: "string \<Rightarrow> string \<Rightarrow> exn" where
  "cannot_read what k =
     TypeError (''Cannot read properties of '' @ what @ '' (reading '' @ [CHR 0x27] @ k @ [CHR 0x27] @ '')'')"

fun member :: "json \<Rightarrow> string \<Rightarrow> exn + json" where
  "member JUndefined k = Inl (cannot_read ''undefined'' k)"
| "member JNull k = Inl (cannot_read ''null'' k)"
| "member (JObj kvs) k = Inr (lookup kvs k)"
| "member v k = Inr JUndefined"

text \<open>\<^verbatim>\<open>v?.k\<close>: optional chaining never throws.\<close>

fun opt_member :: "json \<Rightarrow> string \<Rightarrow> json" where
  "opt_member (JObj kvs) k = lookup kvs k"
| "opt_member v k = JUndefined"

subsection \<open>Numbers and strings\<close>

definition digit_char :: "nat \<Rightarrow> char" where
  "digit_char d = ''0123456789'' ! (d mod 10)"

fun show_nat :: "nat \<Rightarrow> string" where
  "show_nat n = (if n < 10 then [digit_char n] else show_nat (n div 10) @ [digit_char n])"

declare show_nat.simps [simp del]

definition show_int :: "int \<Rightarrow> string" where
  "show_int i = (if i < 0 then CHR ''-'' # show_nat (nat (- i)) else show_nat (nat i))"



fun join_with :: "string \<Rightarrow> string list \<Rightarrow> string" where
  "join_with sep [] = []"
| "join_with sep [s] = s"
| "join_with sep (s # t # ts) = s @ sep @ join_with sep (t # ts)"

subsection \<open>ToString and the toString method\<close>

text \<open>
  ToString of a value, as template literals and \<^verbatim>\<open>Array.prototype.join\<close> apply it. An
  array prints as its elements joined by commas, \<^verbatim>\<open>undefined\<close> and \<^verbatim>\<open>null\<close> elements as
  the empty string. A plain object prints as \<^verbatim>\<open>[object Object]\<close>, unless it has an own
  \<^verbatim>\<open>toString\<close> property: parsed data is never callable, \<^verbatim>\<open>valueOf\<close> returns the object
  itself, and the conversion throws.
\<close>

fun to_string :: "json \<Rightarrow> exn + string"
  and join_elements :: "json list \<Rightarrow> exn + string list"
where
  "to_string JUndefined = Inr ''undefined''"
| "to_string JNull = Inr ''null''"
| "to_string (JBool b) = Inr (if b then ''true'' else ''false'')"
| "to_string (JNum n) = Inr (show_int n)"
| "to_string (JStr s) = Inr s"
| "to_string (JArr xs) =
     (case join_elements xs of Inl e \<Rightarrow> Inl e | Inr ss \<Rightarrow> Inr (join_with '','' ss))"
| "to_string (JObj kvs) =
     (if ''toString'' \<in> fst ` set kvs
      then Inl (TypeError ''Cannot convert object to primitive value'')
      else Inr ''[object Object]'')"
| "join_elements [] = Inr []"
| "join_elements (x # xs) =
     (case (if nullish x then Inr [] else to_string x) of
        Inl e \<Rightarrow> Inl e
      | Inr s \<Rightarrow> (case join_elements xs of Inl e \<Rightarrow> Inl e | Inr ss \<Rightarrow> Inr (s # ss)))"

text \<open>
  The method call \<^verbatim>\<open>x.toString()\<close>, where \<^verbatim>\<open>x\<close> is the variable named \<open>nm\<close>. An object
  with an own \<^verbatim>\<open>toString\<close> property shadows the inherited method with a value that is not
  a function.
\<close>

fun call_toString :: "string \<Rightarrow> json \<Rightarrow> exn + string" where
  "call_toString nm JUndefined = Inl (cannot_read ''undefined'' ''toString'')"
| "call_toString nm JNull = Inl (cannot_read ''null'' ''toString'')"
| "call_toString nm (JObj kvs) =
     (if ''toString'' \<in> fst ` set kvs
      then Inl (TypeError (nm @ ''.toString is not a function''))
      else Inr ''[object Object]'')"
| "call_toString nm v = to_string v"

subsection \<open>JSON.stringify\<close>

text \<open>
  QuoteJSONString: the quote and the backslash are escaped, the control characters use
  their short escapes or \<^verbatim>\<open>\u00XX\<close>.
\<close>

definition hex_char :: "nat \<Rightarrow> char" where
  "hex_char d = ''0123456789abcdef'' ! (d mod 16)"

definition quote_char :: "char \<Rightarrow> string" where
  "quote_char c =
     (if c = CHR 0x22 then [CHR 0x5C, CHR 0x22]
      else if c = CHR 0x5C then [CHR 0x5C, CHR 0x5C]
      else if c = CHR 0x08 then [CHR 0x5C, CHR ''b'']
      else if c = CHR 0x0C then [CHR 0x5C, CHR ''f'']
      else if c = CHR 0x0A then [CHR 0x5C, CHR ''n'']
      else if c = CHR 0x0D then [CHR 0x5C, CHR ''r'']
      else if c = CHR 0x09 then [CHR 0x5C, CHR ''t'']
      else if (of_char c :: nat) < 32
        then [CHR 0x5C, CHR ''u'', CHR ''0'', CHR ''0'',
              hex_char (of_char c div 16), hex_char (of_char c)]
      else [c])"

definition quote :: "string \<Rightarrow> string" where
  "quote s = CHR 0x22 # concat (map quote_char s) @ [CHR 0x22]"

text \<open>
  \<^verbatim>\<open>JSON.stringify(v)\<close>: \<^verbatim>\<open>undefined\<close> has no serialization (the result is \<^verbatim>\<open>undefined\<close>,
  here \<open>None\<close>); inside an array it prints as \<^verbatim>\<open>null\<close>, and a property holding it is
  left out.
\<close>

fun stringify :: "json \<Rightarrow> string option"
  and stringify_elements :: "json list \<Rightarrow> string list"
  and stringify_properties :: "obj \<Rightarrow> string list"
where
  "stringify JUndefined = None"
| "stringify JNull = Some ''null''"
| "stringify (JBool b) = Some (if b then ''true'' else ''false'')"
| "stringify (JNum n) = Some (show_int n)"
| "stringify (JStr s) = Some (quote s)"
| "stringify (JArr xs) = Some (''['' @ join_with '','' (stringify_elements xs) @ '']'')"
| "stringify (JObj kvs) = Some (''{'' @ join_with '','' (stringify_properties kvs) @ ''}'')"
| "stringify_elements [] = []"
| "stringify_elements (x # xs) =
     (case stringify x of None \<Rightarrow> ''null'' | Some s \<Rightarrow> s) # stringify_elements xs"
| "stringify_properties [] = []"
| "stringify_properties ((k, v) # kvs) =
     (case stringify v of
        None \<Rightarrow> stringify_properties kvs
      | Some s \<Rightarrow> (quote k @ '':'' @ s) # stringify_properties kvs)"

text \<open>The result of \<^verbatim>\<open>JSON.stringify\<close> as a value: a string or \<^verbatim>\<open>undefined\<close>.\<close>

definition JSON_stringify :: "json \<Rightarrow> json" where
  "JSON_stringify v = (case stringify v of None \<Rightarrow> JUndefined | Some s \<Rightarrow> JStr s)"

section \<open>Configuration, the world outside, and what a handler does\<close>

text \<open>
  \<^verbatim>\<open>process.env\<close> maps a variable name to a string, or to nothing. \<^verbatim>\<open>paytm.config.js\<close>
  reads it once.
\<close>

type_synonym process_env = "string \<Rightarrow> string option"

record paytm_config =
  mid :: "string option"
  key :: "string option"
  website :: "string option"
  callbackUrl :: "string option"
  industryTypeId :: "string option"
  channelId :: "string option"
  host :: string

definition or_default :: "string option \<Rightarrow> string \<Rightarrow> string option" where
  "or_default v d = (case v of None \<Rightarrow> Some d | Some s \<Rightarrow> if s = [] then Some d else Some s)"

definition paytmConfig :: "process_env \<Rightarrow> paytm_config" where
  "paytmConfig penv =
     (let isProd = (penv ''PAYTM_ENVIRONMENT'' = Some ''PROD'') in
      \<lparr> mid = penv ''PAYTM_MID'',
        key = penv ''PAYTM_MERCHANT_KEY'',
        website = penv ''PAYTM_WEBSITE'',
        callbackUrl = penv ''PAYTM_CALLBACK_URL'',
        industryTypeId = or_default (penv ''PAYTM_INDUSTRY_TYPE_ID'') ''Retail'',
        channelId = or_default (penv ''PAYTM_CHANNEL_ID'') ''WEB'',
        host = (if isProd then ''https://securegw.paytm.in''
                else ''https://securegw-stage.paytm.in'') \<rparr>)"

text \<open>A configuration value as a JavaScript value, and inside a template literal.\<close>

definition js_of :: "string option \<Rightarrow> json" where
  "js_of v = (case v of None \<Rightarrow> JUndefined | Some s \<Rightarrow> JStr s)"

definition in_template :: "string option \<Rightarrow> string" where
  "in_template v = (case v of None \<Rightarrow> ''undefined'' | Some s \<Rightarrow> s)"

text \<open>
  What the handlers call and do not define: the clock, the random source, the checksum
  library and the HTTP client. \<open>generateSignature\<close> takes the serialized payload and the
  key; \<open>verifySignature\<close> the fields, the key and the received checksum; \<open>axios_post\<close> the
  URL and the request object, and gives the \<^verbatim>\<open>data\<close> of the response. Each of the three
  either returns or throws.
\<close>

record runtime =
  date_now :: nat
  math_random :: real
  generateSignature :: "json \<Rightarrow> string option \<Rightarrow> exn + string"
  verifySignature :: "json \<Rightarrow> string option \<Rightarrow> json \<Rightarrow> exn + bool"
  axios_post :: "string \<Rightarrow> json \<Rightarrow> exn + json"

text \<open>The observable actions of a handler, in the order they happen.\<close>

datatype level = Info | Warn | Error

datatype event =
    Console level "json list"
  | Sign json "string option"
  | Verify json "string option" json
  | Post string json

text \<open>\<^verbatim>\<open>res.status(n).json(v)\<close> and \<^verbatim>\<open>res.status(n).send(text)\<close>; the status is 200 when unset.\<close>

datatype response = Json nat json | Send nat string

fun status_code :: "response \<Rightarrow> nat" where
  "status_code (Json n v) = n"
| "status_code (Send n s) = n"

section \<open>The handlers\<close>

subsection \<open>generateOrderId\<close>

definition generateOrderId :: "runtime \<Rightarrow> string" where
  "generateOrderId rt =
     ''ORDER_'' @ show_int (int (date_now rt)) @ ''_'' @ show_int \<lfloor>math_random rt * 1000\<rfloor>"

subsection \<open>POST /api/paytm/create-order\<close>

text \<open>The object literal \<^verbatim>\<open>paytmParams\<close>; its two \<^verbatim>\<open>toString()\<close> calls may throw.\<close>

definition paytmParams :: "paytm_config \<Rightarrow> string \<Rightarrow> json \<Rightarrow> json \<Rightarrow> exn + json" where
  "paytmParams cfg orderId amount customerId =
     (case call_toString ''amount'' amount of
        Inl e \<Rightarrow> Inl e
      | Inr a \<Rightarrow>
          (case call_toString ''customerId'' customerId of
             Inl e \<Rightarrow> Inl e
           | Inr c \<Rightarrow>
               Inr (JObj
                 [(''requestType'', JStr ''Payment''),
                  (''mid'', js_of (mid cfg)),
                  (''websiteName'', js_of (website cfg)),
                  (''orderId'', JStr orderId),
                  (''callbackUrl'', js_of (callbackUrl cfg)),
                  (''txnAmount'', JObj [(''value'', JStr a), (''currency'', JStr ''INR'')]),
                  (''userInfo'', JObj [(''custId'', JStr c)])])))"

text \<open>
  The test \<^verbatim>\<open>!data.body || !data.body.resultInfo || data.body.resultInfo.resultStatus !== "S"\<close>,
  evaluated left to right.
\<close>

definition initiate_failed :: "json \<Rightarrow> exn + bool" where
  "initiate_failed data =
     (case member data ''body'' of
        Inl e \<Rightarrow> Inl e
      | Inr b \<Rightarrow>
          if \<not> truthy b then Inr True
          else (case member b ''resultInfo'' of
                  Inl e \<Rightarrow> Inl e
                | Inr ri \<Rightarrow>
                    if \<not> truthy ri then Inr True
                    else (case member ri ''resultStatus'' of
                            Inl e \<Rightarrow> Inl e
                          | Inr st \<Rightarrow> Inr (st \<noteq> JStr ''S''))))"

text \<open>\<^verbatim>\<open>data.body.txnToken\<close>.\<close>

definition body_txnToken :: "json \<Rightarrow> exn + json" where
  "body_txnToken data =
     (case member data ''body'' of Inl e \<Rightarrow> Inl e | Inr b \<Rightarrow> member b ''txnToken'')"

text \<open>The \<^verbatim>\<open>try\<close> block: a response, or the value thrown, with the actions so far.\<close>

definition create_order_try :: "runtime \<Rightarrow> process_env \<Rightarrow> obj \<Rightarrow> (exn + response) \<times> event list" where
  "create_order_try rt penv body =
     (let cfg = paytmConfig penv;
          amount = lookup body ''amount'';
          customerId = lookup body ''customerId''
      in
      if \<not> truthy amount \<or> \<not> truthy customerId
      then (Inr (Json 400 (JObj [(''error'', JStr ''amount and customerId are required'')])), [])
      else
        let orderId = generateOrderId rt in
        (case paytmParams cfg orderId amount customerId of
           Inl e \<Rightarrow> (Inl e, [])
         | Inr params \<Rightarrow>
             let signed = JSON_stringify params;
                 tr1 = [Sign signed (key cfg)]
             in
             (case generateSignature rt signed (key cfg) of
                Inl e \<Rightarrow> (Inl e, tr1)
              | Inr checksum \<Rightarrow>
                  let requestBody =
                        JObj [(''body'', params),
                              (''head'', JObj [(''signature'', JStr checksum)])];
                      url = host cfg @ ''/theia/api/v1/initiateTransaction?mid=''
                              @ in_template (mid cfg) @ ''&orderId='' @ orderId;
                      tr2 = tr1 @ [Post url requestBody]
                  in
                  (case axios_post rt url requestBody of
                     Inl e \<Rightarrow> (Inl e, tr2)
                   | Inr data \<Rightarrow>
                       (case initiate_failed data of
                          Inl e \<Rightarrow> (Inl e, tr2)
                        | Inr True \<Rightarrow>
                            (Inr (Json 400 (JObj
                                   [(''error'', JStr ''Failed to initiate transaction''),
                                    (''paytmResponse'', data)])),
                             tr2 @ [Console Error [JStr ''Initiate Transaction Failed:'', data]])
                        | Inr False \<Rightarrow>
                            (case body_txnToken data of
                               Inl e \<Rightarrow> (Inl e, tr2)
                             | Inr txnToken \<Rightarrow>
                                 (Inr (Json 200 (JObj
                                        [(''mid'', js_of (mid cfg)),
                                         (''orderId'', JStr orderId),
                                         (''amount'', amount),
                                         (''txnToken'', txnToken),
                                         (''callbackUrl'', js_of (callbackUrl cfg)),
                                         (''env'', js_of (penv ''PAYTM_ENVIRONMENT''))])),
                                  tr2)))))))"

text \<open>The handler: the \<^verbatim>\<open>try\<close> block under its \<^verbatim>\<open>catch\<close>.\<close>

definition create_order :: "runtime \<Rightarrow> process_env \<Rightarrow> obj \<Rightarrow> response \<times> event list" where
  "create_order rt penv body =
     (case create_order_try rt penv body of
        (Inr resp, tr) \<Rightarrow> (resp, tr)
      | (Inl err, tr) \<Rightarrow>
          (Json 500 (JObj [(''error'', JStr ''Something went wrong while creating order''),
                           (''details'', message err)]),
           tr @ [Console Error [JStr ''create-order error:'',
                                js_or (response_data err) (message err)]]))"

subsection \<open>POST /api/paytm/status\<close>

definition status_try :: "runtime \<Rightarrow> process_env \<Rightarrow> obj \<Rightarrow> (exn + response) \<times> event list" where
  "status_try rt penv req_body =
     (let cfg = paytmConfig penv;
          orderId = lookup req_body ''orderId''
      in
      if \<not> truthy orderId
      then (Inr (Json 400 (JObj [(''error'', JStr ''orderId is required'')])), [])
      else
        let body = JObj [(''mid'', js_of (mid cfg)), (''orderId'', orderId)];
            signed = JSON_stringify body;
            tr1 = [Sign signed (key cfg)]
        in
        (case generateSignature rt signed (key cfg) of
           Inl e \<Rightarrow> (Inl e, tr1)
         | Inr checksum \<Rightarrow>
             let statusRequest =
                   JObj [(''body'', body),
                         (''head'', JObj [(''signature'', JStr checksum)])];
                 url = host cfg @ ''/v3/order/status'';
                 tr2 = tr1 @ [Post url statusRequest]
             in
             (case axios_post rt url statusRequest of
                Inl e \<Rightarrow> (Inl e, tr2)
              | Inr data \<Rightarrow>
                  let resultInfo = opt_member (opt_member data ''body'') ''resultInfo'';
                      txnStatus = opt_member resultInfo ''resultStatus''
                  in
                  (case member data ''body'' of
                     Inl e \<Rightarrow> (Inl e, tr2)
                   | Inr data_body \<Rightarrow>
                       (Inr (Json 200 (JObj
                              [(''orderId'', orderId),
                               (''status'', txnStatus),
                               (''resultInfo'', resultInfo),
                               (''paytmResponse'', data_body)])),
                        tr2)))))"

definition status_check :: "runtime \<Rightarrow> process_env \<Rightarrow> obj \<Rightarrow> response \<times> event list" where
  "status_check rt penv req_body =
     (case status_try rt penv req_body of
        (Inr resp, tr) \<Rightarrow> (resp, tr)
      | (Inl err, tr) \<Rightarrow>
          (Json 500 (JObj [(''error'', JStr ''Something went wrong while checking status''),
                           (''details'', message err)]),
           tr @ [Console Error [JStr ''status error:'',
                                js_or (response_data err) (message err)]]))"

subsection \<open>POST /api/paytm/callback, in the first server.js\<close>

definition callback_ack :: string where
  "callback_ack = ''Paytm callback received. You can close this window and return to the app.''"

definition invalid_checksum_warning :: string where
  "invalid_checksum_warning = [CHR 0xE2, CHR 0x9D, CHR 0x8C] @ '' Invalid checksum in callback''"

definition callback :: "runtime \<Rightarrow> process_env \<Rightarrow> obj \<Rightarrow> response \<times> event list" where
  "callback rt penv req_body =
     (let cfg = paytmConfig penv;
          tr0 = [Console Info [JStr ''Paytm callback data:'', JObj req_body]];
          paytmChecksum = lookup req_body ''CHECKSUMHASH'';
          receivedData = JObj (delete_key ''CHECKSUMHASH'' req_body)
      in
      (case (if truthy paytmChecksum
             then (verifySignature rt receivedData (key cfg) paytmChecksum,
                   [Verify receivedData (key cfg) paytmChecksum])
             else (Inr True, [])) of
         (Inl err, tr1) \<Rightarrow>
           (Send 500 ''Internal Server Error'',
            tr0 @ tr1 @ [Console Error [JStr ''callback error:'', message err]])
       | (Inr isValidChecksum, tr1) \<Rightarrow>
           if \<not> isValidChecksum
           then (Send 400 ''Checksum mismatched'',
                 tr0 @ tr1 @ [Console Warn [JStr invalid_checksum_warning]])
           else (Send 200 callback_ack, tr0 @ tr1)))"

subsection \<open>POST /api/paytm/callback, in the second server.js\<close>

definition callback_ack2 :: string where
  "callback_ack2 = ''Callback received. Please wait while we verify payment.''"

definition callback2 :: "runtime \<Rightarrow> process_env \<Rightarrow> obj \<Rightarrow> response \<times> event list" where
  "callback2 rt penv req_body =
     (let cfg = paytmConfig penv;
          tr0 = [Console Info [JStr ''Paytm callback received:'', JObj req_body]];
          paytmChecksum = lookup req_body ''CHECKSUMHASH'';
          receivedData = JObj (delete_key ''CHECKSUMHASH'' req_body)
      in
      (case (if truthy paytmChecksum
             then (verifySignature rt receivedData (key cfg) paytmChecksum,
                   [Verify receivedData (key cfg) paytmChecksum])
             else (Inr False, [])) of
         (Inl err, tr1) \<Rightarrow>
           (Send 500 ''Internal Server Error'',
            tr0 @ tr1 @ [Console Error [JStr ''callback error:'', message err]])
       | (Inr isValidChecksum, tr1) \<Rightarrow>
           if \<not> isValidChecksum
           then (Send 400 ''Checksum mismatched'',
                 tr0 @ tr1 @ [Console Warn [JStr ''Invalid checksum in callback'']])
           else (Send 200 callback_ack2, tr0 @ tr1)))"

subsection \<open>POST /api/paytm/create-order and /api/paytm/status, in the second server.js\<close>

text \<open>
  The second \<^verbatim>\<open>server.js\<close> repeats the two handlers. It words the validation errors and
  one log label differently and is otherwise the same code.
\<close>

definition create_order2_try :: "runtime \<Rightarrow> process_env \<Rightarrow> obj \<Rightarrow> (exn + response) \<times> event list" where
  "create_order2_try rt penv req_body =
     (let cfg = paytmConfig penv;
          amount = lookup req_body ''amount'';
          customerId = lookup req_body ''customerId''
      in
      if \<not> truthy amount \<or> \<not> truthy customerId
      then (Inr (Json 400 (JObj [(''error'', JStr ''amount and customerId required'')])), [])
      else
        let orderId = generateOrderId rt in
        (case paytmParams cfg orderId amount customerId of
           Inl e \<Rightarrow> (Inl e, [])
         | Inr body \<Rightarrow>
             let signed = JSON_stringify body;
                 tr1 = [Sign signed (key cfg)]
             in
             (case generateSignature rt signed (key cfg) of
                Inl e \<Rightarrow> (Inl e, tr1)
              | Inr checksum \<Rightarrow>
                  let initTxnRequest =
                        JObj [(''body'', body),
                              (''head'', JObj [(''signature'', JStr checksum)])];
                      url = host cfg @ ''/theia/api/v1/initiateTransaction?mid=''
                              @ in_template (mid cfg) @ ''&orderId='' @ orderId;
                      tr2 = tr1 @ [Post url initTxnRequest]
                  in
                  (case axios_post rt url initTxnRequest of
                     Inl e \<Rightarrow> (Inl e, tr2)
                   | Inr data \<Rightarrow>
                       (case initiate_failed data of
                          Inl e \<Rightarrow> (Inl e, tr2)
                        | Inr True \<Rightarrow>
                            (Inr (Json 400 (JObj
                                   [(''error'', JStr ''Failed to initiate transaction''),
                                    (''paytmResponse'', data)])),
                             tr2 @ [Console Error [JStr ''Paytm initiate txn failed:'', data]])
                        | Inr False \<Rightarrow>
                            (case body_txnToken data of
                               Inl e \<Rightarrow> (Inl e, tr2)
                             | Inr txnToken \<Rightarrow>
                                 (Inr (Json 200 (JObj
                                        [(''mid'', js_of (mid cfg)),
                                         (''orderId'', JStr orderId),
                                         (''amount'', amount),
                                         (''txnToken'', txnToken),
                                         (''callbackUrl'', js_of (callbackUrl cfg)),
                                         (''env'', js_of (penv ''PAYTM_ENVIRONMENT''))])),
                                  tr2)))))))"

definition create_order2 :: "runtime \<Rightarrow> process_env \<Rightarrow> obj \<Rightarrow> response \<times> event list" where
  "create_order2 rt penv req_body =
     (case create_order2_try rt penv req_body of
        (Inr resp, tr) \<Rightarrow> (resp, tr)
      | (Inl err, tr) \<Rightarrow>
          (Json 500 (JObj [(''error'', JStr ''Something went wrong while creating order''),
                           (''details'', message err)]),
           tr @ [Console Error [JStr ''create-order error:'',
                                js_or (response_data err) (message err)]]))"

definition status2_try :: "runtime \<Rightarrow> process_env \<Rightarrow> obj \<Rightarrow> (exn + response) \<times> event list" where
  "status2_try rt penv req_body =
     (let cfg = paytmConfig penv;
          orderId = lookup req_body ''orderId''
      in
      if \<not> truthy orderId
      then (Inr (Json 400 (JObj [(''error'', JStr ''orderId required'')])), [])
      else
        let body = JObj [(''mid'', js_of (mid cfg)), (''orderId'', orderId)];
            signed = JSON_stringify body;
            tr1 = [Sign signed (key cfg)]
        in
        (case generateSignature rt signed (key cfg) of
           Inl e \<Rightarrow> (Inl e, tr1)
         | Inr checksum \<Rightarrow>
             let statusRequest =
                   JObj [(''body'', body),
                         (''head'', JObj [(''signature'', JStr checksum)])];
                 url = host cfg @ ''/v3/order/status'';
                 tr2 = tr1 @ [Post url statusRequest]
             in
             (case axios_post rt url statusRequest of
                Inl e \<Rightarrow> (Inl e, tr2)
              | Inr data \<Rightarrow>
                  let resultInfo = opt_member (opt_member data ''body'') ''resultInfo'';
                      txnStatus = opt_member resultInfo ''resultStatus''
                  in
                  (case member data ''body'' of
                     Inl e \<Rightarrow> (Inl e, tr2)
                   | Inr data_body \<Rightarrow>
                       (Inr (Json 200 (JObj
                              [(''orderId'', orderId),
                               (''status'', txnStatus),
                               (''resultInfo'', resultInfo),
                               (''paytmResponse'', data_body)])),
                        tr2)))))"

definition status_check2 :: "runtime \<Rightarrow> process_env \<Rightarrow> obj \<Rightarrow> response \<times> event list" where
  "status_check2 rt penv req_body =
     (case status2_try rt penv req_body of
        (Inr resp, tr) \<Rightarrow> (resp, tr)
      | (Inl err, tr) \<Rightarrow>
          (Json 500 (JObj [(''error'', JStr ''Something went wrong while checking status''),
                           (''details'', message err)]),
           tr @ [Console Error [JStr ''status error:'',
                                js_or (response_data err) (message err)]]))"

section \<open>Reading a response\<close>

text \<open>A field of the JSON body of a response.\<close>

fun response_field :: "response \<Rightarrow> string \<Rightarrow> json" where
  "response_field (Json n v) k = opt_member v k"
| "response_field (Send n s) k = JUndefined"

text \<open>The gateway's result status, \<^verbatim>\<open>data?.body?.resultInfo?.resultStatus\<close>.\<close>

definition gateway_resultStatus :: "json \<Rightarrow> json" where
  "gateway_resultStatus data =
     opt_member (opt_member (opt_member data ''body'') ''resultInfo'') ''resultStatus''"

text \<open>Whether a value is an object that has the property: \<^verbatim>\<open>k in v\<close> for parsed data.\<close>

fun has_field :: "json \<Rightarrow> string \<Rightarrow> bool" where
  "has_field (JObj kvs) k = (k \<in> fst ` set kvs)"
| "has_field v k = False"

text \<open>
  The normalization that the specification asks of a compliant implementation, in its
  words: \<^verbatim>\<open>TXN_SUCCESS\<close> is SUCCESS, \<^verbatim>\<open>TXN_FAILURE\<close> is FAILED, any other code is
  UNKNOWN. The source has no such function.
\<close>

definition spec_local_status :: "json \<Rightarrow> string" where
  "spec_local_status code =
     (if code = JStr ''TXN_SUCCESS'' then ''SUCCESS''
      else if code = JStr ''TXN_FAILURE'' then ''FAILED''
      else ''UNKNOWN'')"

text \<open>Calls that leave the process: to the checksum library and to the gateway.\<close>

fun outbound :: "event \<Rightarrow> bool" where
  "outbound (Console l args) = False"
| "outbound e = True"

section \<open>A stub world for running the handlers\<close>

text \<open>
  A staging configuration, and stand-ins for the checksum library and the gateway. The
  stub signer takes a 16-character key, as the AES-128 cipher of the checksum scheme
  does, and throws on any other; the stub verifier accepts the checksum \<^verbatim>\<open>GOOD\<close>; the
  stub gateway gives the same answer \<open>g\<close> to every request.
\<close>

definition demo_env :: process_env where
  "demo_env = map_of
     [(''PAYTM_MID'', ''MID123''),
      (''PAYTM_MERCHANT_KEY'', ''0123456789abcdef''),
      (''PAYTM_WEBSITE'', ''WEBSTAGING''),
      (''PAYTM_CALLBACK_URL'', ''https://shop.test/api/paytm/callback'')]"

definition stub_sign :: "json \<Rightarrow> string option \<Rightarrow> exn + string" where
  "stub_sign payload k =
     (case k of
        Some s \<Rightarrow> if length s = 16 then Inr (''sig/'' @ s)
                  else Inl (Exn (JStr ''Invalid key length'') JUndefined)
      | None \<Rightarrow> Inl (Exn (JStr ''The key argument must be of type string'') JUndefined))"

definition stub_verify :: "json \<Rightarrow> string option \<Rightarrow> json \<Rightarrow> exn + bool" where
  "stub_verify received k checksum = Inr (checksum = JStr ''GOOD'')"

definition stub_runtime :: "(exn + json) \<Rightarrow> runtime" where
  "stub_runtime g =
     \<lparr> date_now = 1700000000000, math_random = 1/4,
       generateSignature = stub_sign,
       verifySignature = stub_verify,
       axios_post = (\<lambda>url request. g) \<rparr>"

text \<open>Request bodies.\<close>

definition order_request :: obj where
  "order_request = [(''amount'', JNum 100), (''customerId'', JStr ''cust1'')]"

definition status_request :: obj where
  "status_request = [(''orderId'', JStr ''ORDER_1700000000000_250'')]"

definition signed_callback :: obj where
  "signed_callback =
     [(''ORDERID'', JStr ''ORDER_1700000000000_250''),
      (''STATUS'', JStr ''TXN_SUCCESS''),
      (''CHECKSUMHASH'', JStr ''GOOD'')]"

definition forged_callback :: obj where
  "forged_callback =
     [(''ORDERID'', JStr ''ORDER_1700000000000_250''),
      (''STATUS'', JStr ''TXN_SUCCESS''),
      (''CHECKSUMHASH'', JStr ''BAD'')]"

definition unsigned_callback :: obj where
  "unsigned_callback =
     [(''ORDERID'', JStr ''ORDER_1700000000000_250''), (''STATUS'', JStr ''TXN_SUCCESS'')]"

definition empty_checksum_callback :: obj where
  "empty_checksum_callback =
     [(''ORDERID'', JStr ''ORDER_1700000000000_250''),
      (''STATUS'', JStr ''TXN_SUCCESS''),
      (''CHECKSUMHASH'', JStr [])]"

text \<open>Gateway responses.\<close>

definition initiate_success_response :: json where
  "initiate_success_response =
     JObj [(''body'', JObj [(''resultInfo'', JObj [(''resultStatus'', JStr ''S'')]),
                            (''txnToken'', JStr ''TOK123'')])]"

definition tokenless_success_response :: json where
  "tokenless_success_response =
     JObj [(''body'', JObj [(''resultInfo'', JObj [(''resultStatus'', JStr ''S'')])])]"

definition status_success_response :: json where
  "status_success_response =
     JObj [(''body'', JObj [(''resultInfo'',
              JObj [(''resultStatus'', JStr ''TXN_SUCCESS''), (''resultCode'', JStr ''01'')]),
            (''orderId'', JStr ''ORDER_1700000000000_250'')])]"

definition bodyless_response :: json where
  "bodyless_response = JObj [(''head'', JObj [(''version'', JStr ''v1'')])]"

text \<open>What the handlers send to the gateway for \<open>order_request\<close> and \<open>status_request\<close>.\<close>

definition order_url :: string where
  "order_url = ''https://securegw-stage.paytm.in/theia/api/v1/initiateTransaction''
                 @ ''?mid=MID123&orderId=ORDER_1700000000000_250''"

definition order_post :: json where
  "order_post =
     JObj [(''body'', JObj
              [(''requestType'', JStr ''Payment''),
               (''mid'', JStr ''MID123''),
               (''websiteName'', JStr ''WEBSTAGING''),
               (''orderId'', JStr ''ORDER_1700000000000_250''),
               (''callbackUrl'', JStr ''https://shop.test/api/paytm/callback''),
               (''txnAmount'', JObj [(''value'', JStr ''100''), (''currency'', JStr ''INR'')]),
               (''userInfo'', JObj [(''custId'', JStr ''cust1'')])]),
           (''head'', JObj [(''signature'', JStr ''sig/0123456789abcdef'')])]"

definition status_url :: string where
  "status_url = ''https://securegw-stage.paytm.in/v3/order/status''"

definition status_post :: json where
  "status_post =
     JObj [(''body'', JObj [(''mid'', JStr ''MID123''),
                            (''orderId'', JStr ''ORDER_1700000000000_250'')]),
           (''head'', JObj [(''signature'', JStr ''sig/0123456789abcdef'')])]"

definition status_payload :: string where
  "status_payload =
     ''{'' @ quote ''mid'' @ '':'' @ quote ''MID123'' @ '',''
          @ quote ''orderId'' @ '':'' @ quote ''ORDER_1700000000000_250'' @ ''}''"

section \<open>Facts about the building blocks\<close>



lemma lacking_field: "\<not> has_field v k \<Longrightarrow> opt_member v k = JUndefined"
  by (cases v) (auto simp: lookup_def split: option.splits dest!: map_of_SomeD intro: rev_image_eqI)

lemma member_not_nullish: "\<not> nullish v \<Longrightarrow> member v k = Inr (opt_member v k)"
  by (cases v) auto

lemma truthy_not_nullish: "truthy v \<Longrightarrow> \<not> nullish v"
  by (cases v) auto

lemma opt_member_falsy: "\<not> truthy v \<Longrightarrow> opt_member v k = JUndefined"
  by (cases v) auto

lemma nullish_resultStatus: "nullish v \<Longrightarrow> gateway_resultStatus v = JUndefined"
  by (cases v) (auto simp: gateway_resultStatus_def)

lemma initiate_failed_not_nullish:
  assumes "\<not> nullish data"
  shows "initiate_failed data = Inr (gateway_resultStatus data \<noteq> JStr ''S'')"
proof -
  let ?b = "opt_member data ''body''"
  let ?ri = "opt_member ?b ''resultInfo''"
  have b: "member data ''body'' = Inr ?b"
    using assms by (rule member_not_nullish)
  show ?thesis
  proof (cases "truthy ?b")
    case False
    then show ?thesis
      by (simp add: initiate_failed_def b gateway_resultStatus_def opt_member_falsy)
  next
    case tb: True
    then have ri: "member ?b ''resultInfo'' = Inr ?ri"
      by (simp add: member_not_nullish truthy_not_nullish)
    show ?thesis
    proof (cases "truthy ?ri")
      case False
      then show ?thesis
        by (simp add: initiate_failed_def b ri tb gateway_resultStatus_def opt_member_falsy)
    next
      case True
      then have "member ?ri ''resultStatus'' = Inr (opt_member ?ri ''resultStatus'')"
        by (simp add: member_not_nullish truthy_not_nullish)
      with True show ?thesis
        by (simp add: initiate_failed_def b ri tb gateway_resultStatus_def)
    qed
  qed
qed

lemma initiate_failed_nullish:
  "nullish data \<Longrightarrow> initiate_failed data = Inl (cannot_read (if data = JNull then ''null'' else ''undefined'') ''body'')"
  by (cases data) (auto simp: initiate_failed_def)

lemma success_body_truthy:
  "gateway_resultStatus data = JStr ''S'' \<Longrightarrow> truthy (opt_member data ''body'')"
  by (rule ccontr) (simp add: gateway_resultStatus_def opt_member_falsy)

lemma success_not_nullish:
  "gateway_resultStatus data = JStr ''S'' \<Longrightarrow> \<not> nullish data"
  using nullish_resultStatus by fastforce

lemma body_txnToken_success:
  assumes "gateway_resultStatus data = JStr ''S''"
  shows "body_txnToken data = Inr (opt_member (opt_member data ''body'') ''txnToken'')"
  using success_body_truthy[OF assms] success_not_nullish[OF assms]
  by (simp add: body_txnToken_def member_not_nullish truthy_not_nullish)



section \<open>What the status handler does\<close>

lemma status_check_after_post:
  assumes "Post url request \<in> set (snd (status_check rt penv body))"
    and "axios_post rt url request = Inr data"
    and "\<not> nullish data"
  shows "status_check rt penv body =
     (Json 200 (JObj
        [(''orderId'', lookup body ''orderId''),
         (''status'', gateway_resultStatus data),
         (''resultInfo'', opt_member (opt_member data ''body'') ''resultInfo''),
         (''paytmResponse'', opt_member data ''body'')]),
      [Sign (JSON_stringify (opt_member request ''body'')) (key (paytmConfig penv)),
       Post url request])"
  using assms
  by (auto simp: status_check_def status_try_def Let_def gateway_resultStatus_def
        member_not_nullish lookup_def
      split: sum.splits if_splits)


section \<open>What the create-order handler does\<close>

lemma create_order_params_throw:
  assumes "truthy (lookup body ''amount'')" and "truthy (lookup body ''customerId'')"
    and "paytmParams (paytmConfig penv) (generateOrderId rt)
           (lookup body ''amount'') (lookup body ''customerId'') = Inl e"
  shows "create_order rt penv body =
     (Json 500 (JObj [(''error'', JStr ''Something went wrong while creating order''),
                      (''details'', message e)]),
      [Console Error [JStr ''create-order error:'', js_or (response_data e) (message e)]])"
  using assms by (simp add: create_order_def create_order_try_def Let_def)

lemma create_order_sign_throw:
  assumes "truthy (lookup body ''amount'')" and "truthy (lookup body ''customerId'')"
    and "paytmParams (paytmConfig penv) (generateOrderId rt)
           (lookup body ''amount'') (lookup body ''customerId'') = Inr params"
    and "generateSignature rt (JSON_stringify params) (key (paytmConfig penv)) = Inl e"
  shows "create_order rt penv body =
     (Json 500 (JObj [(''error'', JStr ''Something went wrong while creating order''),
                      (''details'', message e)]),
      [Sign (JSON_stringify params) (key (paytmConfig penv)),
       Console Error [JStr ''create-order error:'', js_or (response_data e) (message e)]])"
  using assms by (simp add: create_order_def create_order_try_def Let_def)

lemma create_order_try_signed:
  assumes "truthy (lookup body ''amount'')" and "truthy (lookup body ''customerId'')"
    and "paytmParams (paytmConfig penv) (generateOrderId rt)
           (lookup body ''amount'') (lookup body ''customerId'') = Inr params"
    and "generateSignature rt (JSON_stringify params) (key (paytmConfig penv)) = Inr checksum"
    and "request = JObj [(''body'', params), (''head'', JObj [(''signature'', JStr checksum)])]"
    and "url = host (paytmConfig penv) @ ''/theia/api/v1/initiateTransaction?mid=''
                 @ in_template (mid (paytmConfig penv)) @ ''&orderId='' @ generateOrderId rt"
    and "tr = [Sign (JSON_stringify params) (key (paytmConfig penv)), Post url request]"
  shows "create_order_try rt penv body =
     (case axios_post rt url request of
        Inl e \<Rightarrow> (Inl e, tr)
      | Inr data \<Rightarrow>
          (case initiate_failed data of
             Inl e \<Rightarrow> (Inl e, tr)
           | Inr True \<Rightarrow>
               (Inr (Json 400 (JObj [(''error'', JStr ''Failed to initiate transaction''),
                                     (''paytmResponse'', data)])),
                tr @ [Console Error [JStr ''Initiate Transaction Failed:'', data]])
           | Inr False \<Rightarrow>
               (case body_txnToken data of
                  Inl e \<Rightarrow> (Inl e, tr)
                | Inr txnToken \<Rightarrow>
                    (Inr (Json 200 (JObj
                           [(''mid'', js_of (mid (paytmConfig penv))),
                            (''orderId'', JStr (generateOrderId rt)),
                            (''amount'', lookup body ''amount''),
                            (''txnToken'', txnToken),
                            (''callbackUrl'', js_of (callbackUrl (paytmConfig penv))),
                            (''env'', js_of (penv ''PAYTM_ENVIRONMENT''))])),
                     tr))))"
  unfolding create_order_try_def Let_def
  by (simp only: assms if_False simp_thms sum.case append.simps)

lemma create_order_signed:
  assumes "truthy (lookup body ''amount'')" and "truthy (lookup body ''customerId'')"
    and "paytmParams (paytmConfig penv) (generateOrderId rt)
           (lookup body ''amount'') (lookup body ''customerId'') = Inr params"
    and "generateSignature rt (JSON_stringify params) (key (paytmConfig penv)) = Inr checksum"
    and "request = JObj [(''body'', params), (''head'', JObj [(''signature'', JStr checksum)])]"
    and "url = host (paytmConfig penv) @ ''/theia/api/v1/initiateTransaction?mid=''
                 @ in_template (mid (paytmConfig penv)) @ ''&orderId='' @ generateOrderId rt"
    and "tr = [Sign (JSON_stringify params) (key (paytmConfig penv)), Post url request]"
  shows "create_order rt penv body =
     (case axios_post rt url request of
        Inl err \<Rightarrow>
          (Json 500 (JObj [(''error'', JStr ''Something went wrong while creating order''),
                           (''details'', message err)]),
           tr @ [Console Error [JStr ''create-order error:'',
                                js_or (response_data err) (message err)]])
      | Inr data \<Rightarrow>
          if nullish data
          then (Json 500 (JObj [(''error'', JStr ''Something went wrong while creating order''),
                   (''details'',
                    message (cannot_read (if data = JNull then ''null'' else ''undefined'') ''body''))]),
                tr @ [Console Error [JStr ''create-order error:'',
                   message (cannot_read (if data = JNull then ''null'' else ''undefined'') ''body'')]])
          else if gateway_resultStatus data = JStr ''S''
          then (Json 200 (JObj
                  [(''mid'', js_of (mid (paytmConfig penv))),
                   (''orderId'', JStr (generateOrderId rt)),
                   (''amount'', lookup body ''amount''),
                   (''txnToken'', opt_member (opt_member data ''body'') ''txnToken''),
                   (''callbackUrl'', js_of (callbackUrl (paytmConfig penv))),
                   (''env'', js_of (penv ''PAYTM_ENVIRONMENT''))]),
                tr)
          else (Json 400 (JObj [(''error'', JStr ''Failed to initiate transaction''),
                                (''paytmResponse'', data)]),
                tr @ [Console Error [JStr ''Initiate Transaction Failed:'', data]]))"
proof (cases "axios_post rt url request")
  case (Inl err)
  then show ?thesis
    unfolding create_order_def create_order_try_signed [OF assms] by simp
next
  case (Inr data)
  show ?thesis
  proof (cases "nullish data")
    case True
    then show ?thesis
      unfolding create_order_def create_order_try_signed [OF assms]
      by (simp add: Inr initiate_failed_nullish js_or_def cannot_read_def TypeError_def)
  next
    case nn: False
    show ?thesis
    proof (cases "gateway_resultStatus data = JStr ''S''")
      case True
      then show ?thesis
        unfolding create_order_def create_order_try_signed [OF assms]
        by (simp add: Inr nn initiate_failed_not_nullish body_txnToken_success)
    next
      case False
      then show ?thesis
        unfolding create_order_def create_order_try_signed [OF assms]
        by (simp add: Inr nn initiate_failed_not_nullish)
    qed
  qed
qed

lemma create_order_posts:
  assumes "truthy (lookup body ''amount'')" and "truthy (lookup body ''customerId'')"
    and "paytmParams (paytmConfig penv) (generateOrderId rt)
           (lookup body ''amount'') (lookup body ''customerId'') = Inr params"
    and "generateSignature rt (JSON_stringify params) (key (paytmConfig penv)) = Inr checksum"
    and "request = JObj [(''body'', params), (''head'', JObj [(''signature'', JStr checksum)])]"
    and "url = host (paytmConfig penv) @ ''/theia/api/v1/initiateTransaction?mid=''
                 @ in_template (mid (paytmConfig penv)) @ ''&orderId='' @ generateOrderId rt"
  shows "Post url request \<in> set (snd (create_order rt penv body))"
  by (simp add: create_order_signed [OF assms refl] split: sum.splits)

lemma create_order_posted:
  assumes "Post url request \<in> set (snd (create_order rt penv body))"
  shows "\<exists>params checksum.
     truthy (lookup body ''amount'') \<and> truthy (lookup body ''customerId'')
     \<and> paytmParams (paytmConfig penv) (generateOrderId rt)
           (lookup body ''amount'') (lookup body ''customerId'') = Inr params
     \<and> generateSignature rt (JSON_stringify params) (key (paytmConfig penv)) = Inr checksum
     \<and> request = JObj [(''body'', params), (''head'', JObj [(''signature'', JStr checksum)])]
     \<and> url = host (paytmConfig penv) @ ''/theia/api/v1/initiateTransaction?mid=''
                 @ in_template (mid (paytmConfig penv)) @ ''&orderId='' @ generateOrderId rt"
proof -
  let ?a = "lookup body ''amount''" and ?c = "lookup body ''customerId''"
  let ?cfg = "paytmConfig penv"
  have valid: "truthy ?a \<and> truthy ?c"
  proof (rule ccontr)
    assume "\<not> (truthy ?a \<and> truthy ?c)"
    then have "snd (create_order rt penv body) = []"
      by (auto simp: create_order_def create_order_try_def Let_def)
    with assms show False by simp
  qed
  obtain params where p: "paytmParams ?cfg (generateOrderId rt) ?a ?c = Inr params"
  proof (cases "paytmParams ?cfg (generateOrderId rt) ?a ?c")
    case (Inl e)
    with valid have "\<forall>u r. Post u r \<notin> set (snd (create_order rt penv body))"
      by (simp add: create_order_def create_order_try_def Let_def)
    with assms show ?thesis by blast
  next
    case (Inr x)
    then show ?thesis using that by blast
  qed
  obtain checksum where s: "generateSignature rt (JSON_stringify params) (key ?cfg) = Inr checksum"
  proof (cases "generateSignature rt (JSON_stringify params) (key ?cfg)")
    case (Inl e)
    with valid p have "\<forall>u r. Post u r \<notin> set (snd (create_order rt penv body))"
      by (simp add: create_order_def create_order_try_def Let_def)
    with assms show ?thesis by blast
  next
    case (Inr x)
    then show ?thesis using that by blast
  qed
  let ?rq = "JObj [(''body'', params), (''head'', JObj [(''signature'', JStr checksum)])]"
  let ?url = "host ?cfg @ ''/theia/api/v1/initiateTransaction?mid=''
                 @ in_template (mid ?cfg) @ ''&orderId='' @ generateOrderId rt"
  have "\<forall>u r. Post u r \<in> set (snd (create_order rt penv body)) \<longrightarrow> u = ?url \<and> r = ?rq"
    using valid
    by (simp add: create_order_signed [OF _ _ p s refl refl refl] split: sum.splits)
  with assms have "url = ?url" "request = ?rq" by blast+
  with valid p s show ?thesis by blast
qed

section \<open>The merchant key and the answer\<close>






section \<open>The second server.js against the first\<close>

text \<open>
  Once the input is valid, the second create-order handler gives the same answer and makes
  the same calls to the checksum library and the gateway as the first (one log label
  differs); the second status handler differs from the first in the wording of its
  validation error only.
\<close>

lemma second_create_order:
  "fst (create_order2 rt penv body) =
     (if \<not> truthy (lookup body ''amount'') \<or> \<not> truthy (lookup body ''customerId'')
      then Json 400 (JObj [(''error'', JStr ''amount and customerId required'')])
      else fst (create_order rt penv body))
   \<and> filter outbound (snd (create_order2 rt penv body))
       = filter outbound (snd (create_order rt penv body))"
  by (simp add: create_order2_def create_order2_try_def create_order_def create_order_try_def Let_def
      split: sum.split bool.split)

lemma second_status_check:
  "status_check2 rt penv body =
     (if \<not> truthy (lookup body ''orderId'')
      then (Json 400 (JObj [(''error'', JStr ''orderId required'')]), [])
      else status_check rt penv body)"
  by (simp add: status_check2_def status2_try_def status_check_def status_try_def Let_def)

section \<open>The stub world, run\<close>

text \<open>The equations that evaluate a handler on a concrete request.\<close>

lemmas handler_defs = create_order_def create_order_try_def paytmParams_def Let_def lookup_def
  paytmConfig_def initiate_failed_def body_txnToken_def JSON_stringify_def cannot_read_def TypeError_def
  status_check_def status_try_def callback_def callback2_def js_of_def in_template_def js_or_def
  generateOrderId_def show_int_def show_nat.simps digit_char_def delete_key_def quote_def quote_char_def
  or_default_def gateway_resultStatus_def

lemmas stub_defs = stub_runtime_def stub_sign_def stub_verify_def demo_env_def order_request_def
  status_request_def signed_callback_def forged_callback_def
  status_success_response_def bodyless_response_def
  unsigned_callback_def empty_checksum_callback_def initiate_success_response_def
  tokenless_success_response_def order_url_def order_post_def status_post_def status_url_def status_payload_def

lemma stub_orderId: "generateOrderId (stub_runtime g) = ''ORDER_1700000000000_250''"
  by (simp add: generateOrderId_def stub_runtime_def show_int_def show_nat.simps digit_char_def)

lemma order_post_sent:
  "Post order_url order_post \<in> set (snd (create_order (stub_runtime g) demo_env order_request))"
proof (rule create_order_posts)
  show "truthy (lookup order_request ''amount'')" "truthy (lookup order_request ''customerId'')"
    by (simp_all add: lookup_def order_request_def)
  show "paytmParams (paytmConfig demo_env) (generateOrderId (stub_runtime g))
          (lookup order_request ''amount'') (lookup order_request ''customerId'')
        = Inr (opt_member order_post ''body'')"
    by (simp add: stub_orderId paytmParams_def paytmConfig_def js_of_def lookup_def show_int_def
          show_nat.simps digit_char_def demo_env_def order_request_def order_post_def)
  show "generateSignature (stub_runtime g) (JSON_stringify (opt_member order_post ''body''))
          (key (paytmConfig demo_env)) = Inr ''sig/0123456789abcdef''"
    by (simp add: stub_runtime_def stub_sign_def paytmConfig_def demo_env_def)
  show "order_post = JObj [(''body'', opt_member order_post ''body''),
          (''head'', JObj [(''signature'', JStr ''sig/0123456789abcdef'')])]"
    by (simp add: order_post_def lookup_def)
  show "order_url = host (paytmConfig demo_env) @ ''/theia/api/v1/initiateTransaction?mid=''
          @ in_template (mid (paytmConfig demo_env)) @ ''&orderId='' @ generateOrderId (stub_runtime g)"
    by (simp add: stub_orderId order_url_def paytmConfig_def in_template_def demo_env_def)
qed

lemma status_post_sent:
  "Post status_url status_post \<in> set (snd (status_check (stub_runtime g) demo_env status_request))"
  by (simp add: status_check_def status_try_def Let_def lookup_def paytmConfig_def js_of_def
        stub_runtime_def stub_sign_def demo_env_def status_request_def status_url_def status_post_def
      split: sum.splits)


section \<open>The order identifier\<close>



section \<open>Input validation\<close>

text \<open>
  Claim C5. A create-order request whose \<^verbatim>\<open>amount\<close> or \<^verbatim>\<open>customerId\<close> is missing or falsy,
  and a status request whose \<^verbatim>\<open>orderId\<close> is missing or falsy, is answered 400 with the
  error body of the first \<^verbatim>\<open>server.js\<close>, and the handler does nothing else: no signature
  is computed and the gateway is not called (the list of actions is empty). The second
  \<^verbatim>\<open>server.js\<close> does the same with its own wording of the two messages
  (\<open>second_create_order\<close>, \<open>second_status_check\<close>).
\<close>

theorem missing_input_rejected:
  "(\<not> truthy (lookup body ''amount'') \<or> \<not> truthy (lookup body ''customerId'') \<longrightarrow>
      create_order rt penv body =
        (Json 400 (JObj [(''error'', JStr ''amount and customerId are required'')]), []))
   \<and> (\<not> truthy (lookup body ''orderId'') \<longrightarrow>
      status_check rt penv body = (Json 400 (JObj [(''error'', JStr ''orderId is required'')]), []))"
  by (simp add: create_order_def create_order_try_def status_check_def status_try_def Let_def)

theorem missing_input_rejected_witness:
  "\<not> truthy (lookup [(''amount'', JNum 100)] ''customerId'')
   \<and> create_order (stub_runtime (Inr JNull)) demo_env [(''amount'', JNum 100)] =
        (Json 400 (JObj [(''error'', JStr ''amount and customerId are required'')]), [])
   \<and> \<not> truthy (lookup [(''amount'', JNum 100)] ''orderId'')
   \<and> status_check (stub_runtime (Inr JNull)) demo_env [(''amount'', JNum 100)] =
        (Json 400 (JObj [(''error'', JStr ''orderId is required'')]), [])"
  using missing_input_rejected [of "[(''amount'', JNum 100)]" "stub_runtime (Inr JNull)" demo_env]
  by (simp add: lookup_def)

section \<open>The callback's audit log\<close>

text \<open>
  Claim C7. The callback handler logs the payload as received, with its
  \<^verbatim>\<open>CHECKSUMHASH\<close> still in it, as its first action: before the signature is detached and
  before any verification (a \<open>Verify\<close> action, when there is one, comes later and gets the
  payload without the signature field). This holds whatever the verification does, in
  both versions of the handler.
\<close>

theorem callback_logs_first:
  "(\<exists>rest. snd (callback rt penv body) =
       Console Info [JStr ''Paytm callback data:'', JObj body] # rest
     \<and> (\<forall>f k c. Verify f k c \<in> set (snd (callback rt penv body)) \<longrightarrow>
          Verify f k c \<in> set rest \<and> f = JObj (delete_key ''CHECKSUMHASH'' body)))
   \<and> (\<exists>rest. snd (callback2 rt penv body) =
       Console Info [JStr ''Paytm callback received:'', JObj body] # rest
     \<and> (\<forall>f k c. Verify f k c \<in> set (snd (callback2 rt penv body)) \<longrightarrow>
          Verify f k c \<in> set rest \<and> f = JObj (delete_key ''CHECKSUMHASH'' body)))"
  by (auto simp: callback_def callback2_def Let_def split: sum.splits)

theorem callback_logs_first_witness:
  "snd (callback (stub_runtime (Inr JNull)) demo_env signed_callback) =
     [Console Info [JStr ''Paytm callback data:'', JObj signed_callback],
      Verify (JObj [(''ORDERID'', JStr ''ORDER_1700000000000_250''), (''STATUS'', JStr ''TXN_SUCCESS'')])
        (Some ''0123456789abcdef'') (JStr ''GOOD'')]
   \<and> snd (callback (stub_runtime (Inr JNull)) demo_env forged_callback) =
     [Console Info [JStr ''Paytm callback data:'', JObj forged_callback],
      Verify (JObj [(''ORDERID'', JStr ''ORDER_1700000000000_250''), (''STATUS'', JStr ''TXN_SUCCESS'')])
        (Some ''0123456789abcdef'') (JStr ''BAD''),
      Console Warn [JStr invalid_checksum_warning]]
   \<and> (\<exists>rest. snd (callback (stub_runtime (Inr JNull)) demo_env forged_callback) =
          Console Info [JStr ''Paytm callback data:'', JObj forged_callback] # rest
        \<and> (\<forall>f k c. Verify f k c \<in> set (snd (callback (stub_runtime (Inr JNull)) demo_env forged_callback)) \<longrightarrow>
             Verify f k c \<in> set rest \<and> f = JObj (delete_key ''CHECKSUMHASH'' forged_callback)))"
proof -
  have a: "snd (callback (stub_runtime (Inr JNull)) demo_env signed_callback) =
     [Console Info [JStr ''Paytm callback data:'', JObj signed_callback],
      Verify (JObj [(''ORDERID'', JStr ''ORDER_1700000000000_250''), (''STATUS'', JStr ''TXN_SUCCESS'')])
        (Some ''0123456789abcdef'') (JStr ''GOOD'')]"
    by (simp add: callback_def Let_def lookup_def delete_key_def paytmConfig_def stub_defs)
  have b: "snd (callback (stub_runtime (Inr JNull)) demo_env forged_callback) =
     [Console Info [JStr ''Paytm callback data:'', JObj forged_callback],
      Verify (JObj [(''ORDERID'', JStr ''ORDER_1700000000000_250''), (''STATUS'', JStr ''TXN_SUCCESS'')])
        (Some ''0123456789abcdef'') (JStr ''BAD''),
      Console Warn [JStr invalid_checksum_warning]]"
    by (simp add: callback_def Let_def lookup_def delete_key_def paytmConfig_def stub_defs)
  from a b callback_logs_first [of "stub_runtime (Inr JNull)" demo_env forged_callback]
  show ?thesis by blast
qed

section \<open>The status check\<close>

text \<open>
  Claim C9. When the signed status query has been posted and the gateway's answer is an
  object (anything but \<^verbatim>\<open>null\<close> and \<^verbatim>\<open>undefined\<close>), the handler answers 200; and when
  that answer has no \<^verbatim>\<open>body\<close>, or its \<^verbatim>\<open>body\<close> has no \<^verbatim>\<open>resultInfo\<close>, the
  \<^verbatim>\<open>status\<close> and \<^verbatim>\<open>resultInfo\<close> fields of the answer are \<^verbatim>\<open>undefined\<close>. The
  \<^verbatim>\<open>catch\<close> branch is not taken.
\<close>

theorem status_check_guarded:
  assumes "truthy (lookup body ''orderId'')"
    and "Post url request \<in> set (snd (status_check rt penv body))"
    and "axios_post rt url request = Inr data"
    and "\<not> nullish data"
  shows "status_code (fst (status_check rt penv body)) = 200
     \<and> (\<not> has_field data ''body'' \<or> \<not> has_field (opt_member data ''body'') ''resultInfo'' \<longrightarrow>
          fst (status_check rt penv body) =
            Json 200 (JObj
              [(''orderId'', lookup body ''orderId''),
               (''status'', JUndefined),
               (''resultInfo'', JUndefined),
               (''paytmResponse'', opt_member data ''body'')]))"
proof -
  have run: "fst (status_check rt penv body) =
     Json 200 (JObj
        [(''orderId'', lookup body ''orderId''),
         (''status'', gateway_resultStatus data),
         (''resultInfo'', opt_member (opt_member data ''body'') ''resultInfo''),
         (''paytmResponse'', opt_member data ''body'')])"
    using status_check_after_post [OF assms(2,3,4)] by simp
  have "opt_member (opt_member data ''body'') ''resultInfo'' = JUndefined"
    if "\<not> has_field data ''body'' \<or> \<not> has_field (opt_member data ''body'') ''resultInfo''"
    using that lacking_field [of data "''body''"]
      lacking_field [of "opt_member data ''body''" "''resultInfo''"]
    by auto
  then show ?thesis
    by (auto simp: run gateway_resultStatus_def)
qed

theorem status_check_guarded_witness:
  "truthy (lookup status_request ''orderId'')
   \<and> Post status_url status_post
        \<in> set (snd (status_check (stub_runtime (Inr bodyless_response)) demo_env status_request))
   \<and> axios_post (stub_runtime (Inr bodyless_response)) status_url status_post = Inr bodyless_response
   \<and> \<not> nullish bodyless_response
   \<and> \<not> has_field bodyless_response ''body''
   \<and> fst (status_check (stub_runtime (Inr bodyless_response)) demo_env status_request) =
        Json 200 (JObj
          [(''orderId'', JStr ''ORDER_1700000000000_250''),
           (''status'', JUndefined),
           (''resultInfo'', JUndefined),
           (''paytmResponse'', JUndefined)])"
proof -
  let ?rt = "stub_runtime (Inr bodyless_response)"
  have h1: "truthy (lookup status_request ''orderId'')"
    by (simp add: lookup_def status_request_def)
  have h2: "Post status_url status_post \<in> set (snd (status_check ?rt demo_env status_request))"
    by (rule status_post_sent)
  have h3: "axios_post ?rt status_url status_post = Inr bodyless_response"
    by (simp add: stub_runtime_def)
  have h4: "\<not> nullish bodyless_response" "\<not> has_field bodyless_response ''body''"
    by (simp_all add: bodyless_response_def)
  from status_check_guarded [OF h1 h2 h3 h4(1)] h1 h2 h3 h4 show ?thesis
    by (simp add: lookup_def bodyless_response_def status_request_def)
qed

text \<open>
  Claim C4, as amended. The claim has the status normalized into SUCCESS, FAILED and
  UNKNOWN. The handler has no normalization: the \<^verbatim>\<open>status\<close> field of the answer is the
  gateway's \<^verbatim>\<open>resultStatus\<close> itself, whatever it is (\<^verbatim>\<open>TXN_SUCCESS\<close> stays
  \<^verbatim>\<open>TXN_SUCCESS\<close>, an unrecognized code is returned as it came, a missing one is
  \<^verbatim>\<open>undefined\<close>), and for every gateway answer other than \<^verbatim>\<open>null\<close> and
  \<^verbatim>\<open>undefined\<close> the handler answers 200.
\<close>

theorem status_passed_through:
  assumes "truthy (lookup body ''orderId'')"
    and "Post url request \<in> set (snd (status_check rt penv body))"
    and "axios_post rt url request = Inr data"
    and "\<not> nullish data"
  shows "status_code (fst (status_check rt penv body)) = 200
     \<and> response_field (fst (status_check rt penv body)) ''status'' = gateway_resultStatus data"
  using status_check_after_post [OF assms(2,3,4)] by (simp add: lookup_def)

theorem status_passed_through_witness:
  "truthy (lookup status_request ''orderId'')
   \<and> Post status_url status_post
        \<in> set (snd (status_check (stub_runtime (Inr status_success_response)) demo_env status_request))
   \<and> axios_post (stub_runtime (Inr status_success_response)) status_url status_post
        = Inr status_success_response
   \<and> \<not> nullish status_success_response
   \<and> gateway_resultStatus status_success_response = JStr ''TXN_SUCCESS''
   \<and> status_code (fst (status_check (stub_runtime (Inr status_success_response)) demo_env status_request)) = 200
   \<and> response_field (fst (status_check (stub_runtime (Inr status_success_response)) demo_env status_request))
        ''status'' = JStr ''TXN_SUCCESS''"
proof -
  let ?rt = "stub_runtime (Inr status_success_response)"
  have h1: "truthy (lookup status_request ''orderId'')"
    by (simp add: lookup_def status_request_def)
  have h2: "Post status_url status_post \<in> set (snd (status_check ?rt demo_env status_request))"
    by (rule status_post_sent)
  have h3: "axios_post ?rt status_url status_post = Inr status_success_response"
    by (simp add: stub_runtime_def)
  have h4: "\<not> nullish status_success_response"
    by (simp add: status_success_response_def)
  have v: "gateway_resultStatus status_success_response = JStr ''TXN_SUCCESS''"
    by (simp add: gateway_resultStatus_def lookup_def status_success_response_def)
  from status_passed_through [OF h1 h2 h3 h4] h1 h2 h3 h4 v show ?thesis
    by simp
qed

theorem status_not_normalized_counterexample:
  "gateway_resultStatus status_success_response = JStr ''TXN_SUCCESS''
   \<and> response_field (fst (status_check (stub_runtime (Inr status_success_response)) demo_env status_request))
        ''status'' = JStr ''TXN_SUCCESS''
   \<and> response_field (fst (status_check (stub_runtime (Inr status_success_response)) demo_env status_request))
        ''status'' \<noteq> JStr (spec_local_status (JStr ''TXN_SUCCESS''))"
  by (simp add: handler_defs stub_defs spec_local_status_def)

section \<open>The two callback handlers\<close>

text \<open>
  Claim C3, as amended. The claim has the two handlers agree on every payload that contains
  a \<^verbatim>\<open>CHECKSUMHASH\<close> field and differ exactly where the field is absent. Both test
  \<^verbatim>\<open>if (paytmChecksum)\<close>, the truth value of the field and not its presence. So: on
  every payload whose \<^verbatim>\<open>CHECKSUMHASH\<close> is truthy both verify it against the remaining
  fields and the configured key, and answer 400 \<^verbatim>\<open>Checksum mismatched\<close> when the check
  fails, 200 with their acknowledgment when it passes, 500 when it throws; on every
  payload whose \<^verbatim>\<open>CHECKSUMHASH\<close> is absent or falsy (the empty string of an empty form
  field, say) the first answers 200 and the second 400; and their status codes differ
  exactly on these payloads.
\<close>

theorem callback_variants_agreement:
  "(truthy (lookup body ''CHECKSUMHASH'') \<longrightarrow>
      (case verifySignature rt (JObj (delete_key ''CHECKSUMHASH'' body)) (key (paytmConfig penv))
              (lookup body ''CHECKSUMHASH'') of
         Inl err \<Rightarrow>
           fst (callback rt penv body) = Send 500 ''Internal Server Error''
           \<and> fst (callback2 rt penv body) = Send 500 ''Internal Server Error''
       | Inr ok \<Rightarrow>
           if ok
           then fst (callback rt penv body) = Send 200 callback_ack
                \<and> fst (callback2 rt penv body) = Send 200 callback_ack2
           else fst (callback rt penv body) = Send 400 ''Checksum mismatched''
                \<and> fst (callback2 rt penv body) = Send 400 ''Checksum mismatched''))
   \<and> (\<not> truthy (lookup body ''CHECKSUMHASH'') \<longrightarrow>
        fst (callback rt penv body) = Send 200 callback_ack
        \<and> fst (callback2 rt penv body) = Send 400 ''Checksum mismatched'')
   \<and> (status_code (fst (callback rt penv body)) \<noteq> status_code (fst (callback2 rt penv body))
        \<longleftrightarrow> \<not> truthy (lookup body ''CHECKSUMHASH''))"
  by (simp add: callback_def callback2_def Let_def split: sum.splits)

theorem callback_variants_agreement_witness:
  "truthy (lookup signed_callback ''CHECKSUMHASH'')
   \<and> fst (callback (stub_runtime (Inr JNull)) demo_env signed_callback) = Send 200 callback_ack
   \<and> fst (callback2 (stub_runtime (Inr JNull)) demo_env signed_callback) = Send 200 callback_ack2
   \<and> truthy (lookup forged_callback ''CHECKSUMHASH'')
   \<and> fst (callback (stub_runtime (Inr JNull)) demo_env forged_callback) = Send 400 ''Checksum mismatched''
   \<and> fst (callback2 (stub_runtime (Inr JNull)) demo_env forged_callback) = Send 400 ''Checksum mismatched''
   \<and> \<not> truthy (lookup unsigned_callback ''CHECKSUMHASH'')
   \<and> fst (callback (stub_runtime (Inr JNull)) demo_env unsigned_callback) = Send 200 callback_ack
   \<and> fst (callback2 (stub_runtime (Inr JNull)) demo_env unsigned_callback) = Send 400 ''Checksum mismatched''"
proof -
  let ?rt = "stub_runtime (Inr JNull)"
  have v: "verifySignature ?rt f k c = Inr (c = JStr ''GOOD'')" for f k c
    by (simp add: stub_runtime_def stub_verify_def)
  have s: "lookup signed_callback ''CHECKSUMHASH'' = JStr ''GOOD''"
    by (simp add: lookup_def signed_callback_def)
  have f: "lookup forged_callback ''CHECKSUMHASH'' = JStr ''BAD''"
    by (simp add: lookup_def forged_callback_def)
  have u: "lookup unsigned_callback ''CHECKSUMHASH'' = JUndefined"
    by (simp add: lookup_def unsigned_callback_def)
  from callback_variants_agreement [of signed_callback ?rt demo_env]
    callback_variants_agreement [of forged_callback ?rt demo_env]
    callback_variants_agreement [of unsigned_callback ?rt demo_env]
  show ?thesis
    by (simp add: v s f u)
qed

theorem callback_variants_counterexample:
  "has_field (JObj empty_checksum_callback) ''CHECKSUMHASH''
   \<and> fst (callback (stub_runtime (Inr JNull)) demo_env empty_checksum_callback) = Send 200 callback_ack
   \<and> fst (callback2 (stub_runtime (Inr JNull)) demo_env empty_checksum_callback)
       = Send 400 ''Checksum mismatched''"
  by (simp add: callback_def callback2_def Let_def lookup_def empty_checksum_callback_def)


section \<open>Creating an order\<close>

text \<open>
  Claim C1, as amended. For a request with truthy \<^verbatim>\<open>amount\<close> and \<^verbatim>\<open>customerId\<close> whose
  signed payload has been posted: the answer is 200 exactly when the gateway's response
  has \<^verbatim>\<open>body.resultInfo.resultStatus\<close> equal to \<^verbatim>\<open>S\<close>, and it then carries \<^verbatim>\<open>mid\<close>,
  \<^verbatim>\<open>orderId\<close>, \<^verbatim>\<open>amount\<close>, \<^verbatim>\<open>txnToken\<close>, \<^verbatim>\<open>callbackUrl\<close> and \<^verbatim>\<open>env\<close>; any other
  response that is not \<^verbatim>\<open>null\<close> or \<^verbatim>\<open>undefined\<close> is answered 400 with the raw
  response; a response that is \<^verbatim>\<open>null\<close> or \<^verbatim>\<open>undefined\<close> makes \<^verbatim>\<open>data.body\<close> throw
  and is answered 500 with the TypeError's message (the claim has 400 there); and a
  gateway call that throws is answered 500 with the thrown message.
\<close>

theorem create_order_outcome:
  assumes "truthy (lookup body ''amount'')" and "truthy (lookup body ''customerId'')"
    and "Post url request \<in> set (snd (create_order rt penv body))"
  shows "(\<forall>data. axios_post rt url request = Inr data \<longrightarrow>
            (status_code (fst (create_order rt penv body)) = 200
               \<longleftrightarrow> gateway_resultStatus data = JStr ''S'')
          \<and> (gateway_resultStatus data = JStr ''S'' \<longrightarrow>
               fst (create_order rt penv body) =
                 Json 200 (JObj
                   [(''mid'', js_of (mid (paytmConfig penv))),
                    (''orderId'', JStr (generateOrderId rt)),
                    (''amount'', lookup body ''amount''),
                    (''txnToken'', opt_member (opt_member data ''body'') ''txnToken''),
                    (''callbackUrl'', js_of (callbackUrl (paytmConfig penv))),
                    (''env'', js_of (penv ''PAYTM_ENVIRONMENT''))]))
          \<and> (gateway_resultStatus data \<noteq> JStr ''S'' \<and> \<not> nullish data \<longrightarrow>
               fst (create_order rt penv body) =
                 Json 400 (JObj [(''error'', JStr ''Failed to initiate transaction''),
                                 (''paytmResponse'', data)]))
          \<and> (nullish data \<longrightarrow>
               fst (create_order rt penv body) =
                 Json 500 (JObj [(''error'', JStr ''Something went wrong while creating order''),
                   (''details'',
                    message (cannot_read (if data = JNull then ''null'' else ''undefined'') ''body''))])))
     \<and> (\<forall>err. axios_post rt url request = Inl err \<longrightarrow>
            fst (create_order rt penv body) =
              Json 500 (JObj [(''error'', JStr ''Something went wrong while creating order''),
                              (''details'', message err)]))"
proof -
  from create_order_posted [OF assms(3)] obtain params checksum where
    p: "paytmParams (paytmConfig penv) (generateOrderId rt)
           (lookup body ''amount'') (lookup body ''customerId'') = Inr params"
    and s: "generateSignature rt (JSON_stringify params) (key (paytmConfig penv)) = Inr checksum"
    and r: "request = JObj [(''body'', params), (''head'', JObj [(''signature'', JStr checksum)])]"
    and u: "url = host (paytmConfig penv) @ ''/theia/api/v1/initiateTransaction?mid=''
                 @ in_template (mid (paytmConfig penv)) @ ''&orderId='' @ generateOrderId rt"
    by blast
  note run = create_order_signed [OF assms(1,2) p s r u refl]
  show ?thesis
    using nullish_resultStatus by (auto simp: run)
qed

theorem create_order_outcome_witness:
  "truthy (lookup order_request ''amount'') \<and> truthy (lookup order_request ''customerId'')
   \<and> Post order_url order_post
        \<in> set (snd (create_order (stub_runtime (Inr initiate_success_response)) demo_env order_request))
   \<and> axios_post (stub_runtime (Inr initiate_success_response)) order_url order_post
        = Inr initiate_success_response
   \<and> gateway_resultStatus initiate_success_response = JStr ''S''
   \<and> fst (create_order (stub_runtime (Inr initiate_success_response)) demo_env order_request) =
        Json 200 (JObj
          [(''mid'', JStr ''MID123''),
           (''orderId'', JStr ''ORDER_1700000000000_250''),
           (''amount'', JNum 100),
           (''txnToken'', JStr ''TOK123''),
           (''callbackUrl'', JStr ''https://shop.test/api/paytm/callback''),
           (''env'', JUndefined)])"
proof -
  let ?rt = "stub_runtime (Inr initiate_success_response)"
  have h1: "truthy (lookup order_request ''amount'')"
    and h2: "truthy (lookup order_request ''customerId'')"
    by (simp_all add: lookup_def order_request_def)
  have h3: "Post order_url order_post \<in> set (snd (create_order ?rt demo_env order_request))"
    by (rule order_post_sent)
  have g: "axios_post ?rt order_url order_post = Inr initiate_success_response"
    by (simp add: stub_runtime_def)
  have st: "gateway_resultStatus initiate_success_response = JStr ''S''"
    by (simp add: gateway_resultStatus_def lookup_def initiate_success_response_def)
  have ev: "js_of (mid (paytmConfig demo_env)) = JStr ''MID123''"
    "js_of (callbackUrl (paytmConfig demo_env)) = JStr ''https://shop.test/api/paytm/callback''"
    "js_of (demo_env ''PAYTM_ENVIRONMENT'') = JUndefined"
    "lookup order_request ''amount'' = JNum 100"
    "opt_member (opt_member initiate_success_response ''body'') ''txnToken'' = JStr ''TOK123''"
    by (simp_all add: paytmConfig_def js_of_def lookup_def demo_env_def order_request_def
          initiate_success_response_def)
  from create_order_outcome [OF h1 h2 h3] g st
  have "fst (create_order ?rt demo_env order_request) =
     Json 200 (JObj
       [(''mid'', js_of (mid (paytmConfig demo_env))),
        (''orderId'', JStr (generateOrderId ?rt)),
        (''amount'', lookup order_request ''amount''),
        (''txnToken'', opt_member (opt_member initiate_success_response ''body'') ''txnToken''),
        (''callbackUrl'', js_of (callbackUrl (paytmConfig demo_env))),
        (''env'', js_of (demo_env ''PAYTM_ENVIRONMENT''))])"
    by blast
  then have "fst (create_order ?rt demo_env order_request) =
        Json 200 (JObj
          [(''mid'', JStr ''MID123''),
           (''orderId'', JStr ''ORDER_1700000000000_250''),
           (''amount'', JNum 100),
           (''txnToken'', JStr ''TOK123''),
           (''callbackUrl'', JStr ''https://shop.test/api/paytm/callback''),
           (''env'', JUndefined)])"
    by (simp only: stub_orderId ev)
  with h1 h2 h3 g st show ?thesis by blast
qed

theorem create_order_null_response_counterexample:
  "truthy (lookup order_request ''amount'') \<and> truthy (lookup order_request ''customerId'')
   \<and> Post order_url order_post
        \<in> set (snd (create_order (stub_runtime (Inr JNull)) demo_env order_request))
   \<and> axios_post (stub_runtime (Inr JNull)) order_url order_post = Inr JNull
   \<and> gateway_resultStatus JNull \<noteq> JStr ''S''
   \<and> fst (create_order (stub_runtime (Inr JNull)) demo_env order_request) =
        Json 500 (JObj [(''error'', JStr ''Something went wrong while creating order''),
                        (''details'', message (cannot_read ''null'' ''body''))])
   \<and> status_code (fst (create_order (stub_runtime (Inr JNull)) demo_env order_request)) \<noteq> 400"
proof -
  have "Post order_url order_post \<in> set (snd (create_order (stub_runtime (Inr JNull)) demo_env order_request))"
    by (rule order_post_sent)
  moreover have "fst (create_order (stub_runtime (Inr JNull)) demo_env order_request) =
        Json 500 (JObj [(''error'', JStr ''Something went wrong while creating order''),
                        (''details'', message (cannot_read ''null'' ''body''))])"
    by (simp add: handler_defs stub_defs)
  ultimately show ?thesis
    by (simp add: lookup_def order_request_def stub_runtime_def gateway_resultStatus_def)
qed

text \<open>
  Claim C2, as amended. The claim has every 200 answer carry a present, non-empty
  transaction token. The handler copies \<^verbatim>\<open>data.body.txnToken\<close> into the answer and does
  not look at it. So: for truthy \<^verbatim>\<open>amount\<close> and \<^verbatim>\<open>customerId\<close> the answer is 200, 400
  or 500, and a 200 answer comes from a gateway response whose result status is \<^verbatim>\<open>S\<close>
  and has as \<^verbatim>\<open>txnToken\<close> whatever that response has as \<^verbatim>\<open>body.txnToken\<close>: the token
  when the gateway sent one, \<^verbatim>\<open>undefined\<close> when it sent none.
\<close>

theorem create_order_token:
  assumes "truthy (lookup body ''amount'')" and "truthy (lookup body ''customerId'')"
  shows "status_code (fst (create_order rt penv body)) \<in> {200, 400, 500}
     \<and> (status_code (fst (create_order rt penv body)) = 200 \<longrightarrow>
          (\<exists>url request data.
             Post url request \<in> set (snd (create_order rt penv body))
             \<and> axios_post rt url request = Inr data
             \<and> gateway_resultStatus data = JStr ''S''
             \<and> response_field (fst (create_order rt penv body)) ''txnToken''
                 = opt_member (opt_member data ''body'') ''txnToken''))"
proof (cases "paytmParams (paytmConfig penv) (generateOrderId rt)
                (lookup body ''amount'') (lookup body ''customerId'')")
  case (Inl e)
  show ?thesis
    by (simp add: create_order_params_throw [OF assms Inl])
next
  case p: (Inr params)
  show ?thesis
  proof (cases "generateSignature rt (JSON_stringify params) (key (paytmConfig penv))")
    case (Inl e)
    show ?thesis
      by (simp add: create_order_sign_throw [OF assms p Inl])
  next
    case s: (Inr checksum)
    let ?request = "JObj [(''body'', params), (''head'', JObj [(''signature'', JStr checksum)])]"
    let ?url = "host (paytmConfig penv) @ ''/theia/api/v1/initiateTransaction?mid=''
                 @ in_template (mid (paytmConfig penv)) @ ''&orderId='' @ generateOrderId rt"
    note run = create_order_signed [OF assms p s refl refl refl]
    have sent: "Post ?url ?request \<in> set (snd (create_order rt penv body))"
      by (rule create_order_posts [OF assms p s refl refl])
    show ?thesis
    proof (cases "axios_post rt ?url ?request")
      case (Inl err)
      then show ?thesis by (simp add: run)
    next
      case (Inr data)
      show ?thesis
      proof (cases "status_code (fst (create_order rt penv body)) = 200")
        case True
        with Inr have st: "gateway_resultStatus data = JStr ''S''"
          by (simp add: run split: if_splits)
        with Inr have "response_field (fst (create_order rt penv body)) ''txnToken''
                 = opt_member (opt_member data ''body'') ''txnToken''"
          using success_not_nullish [OF st] by (simp add: run lookup_def)
        with sent Inr st True show ?thesis by auto
      next
        case False
        with Inr show ?thesis by (simp add: run split: if_splits)
      qed
    qed
  qed
qed

theorem create_order_token_witness:
  "truthy (lookup order_request ''amount'') \<and> truthy (lookup order_request ''customerId'')
   \<and> status_code (fst (create_order (stub_runtime (Inr initiate_success_response)) demo_env order_request)) = 200
   \<and> response_field (fst (create_order (stub_runtime (Inr initiate_success_response)) demo_env order_request))
        ''txnToken'' = JStr ''TOK123''
   \<and> (\<exists>url request data.
         Post url request
           \<in> set (snd (create_order (stub_runtime (Inr initiate_success_response)) demo_env order_request))
         \<and> axios_post (stub_runtime (Inr initiate_success_response)) url request = Inr data
         \<and> gateway_resultStatus data = JStr ''S''
         \<and> response_field (fst (create_order (stub_runtime (Inr initiate_success_response)) demo_env order_request))
              ''txnToken'' = opt_member (opt_member data ''body'') ''txnToken'')"
proof -
  let ?rt = "stub_runtime (Inr initiate_success_response)"
  have h1: "truthy (lookup order_request ''amount'')"
    and h2: "truthy (lookup order_request ''customerId'')"
    by (simp_all add: lookup_def order_request_def)
  have v: "fst (create_order ?rt demo_env order_request) =
        Json 200 (JObj
          [(''mid'', JStr ''MID123''),
           (''orderId'', JStr ''ORDER_1700000000000_250''),
           (''amount'', JNum 100),
           (''txnToken'', JStr ''TOK123''),
           (''callbackUrl'', JStr ''https://shop.test/api/paytm/callback''),
           (''env'', JUndefined)])"
    by (simp add: handler_defs stub_defs)
  have c: "status_code (fst (create_order ?rt demo_env order_request)) = 200"
    and t: "response_field (fst (create_order ?rt demo_env order_request)) ''txnToken'' = JStr ''TOK123''"
    by (simp_all add: v lookup_def)
  from create_order_token [OF h1 h2, of ?rt demo_env] c t h1 h2 show ?thesis
    by blast
qed

theorem create_order_tokenless_counterexample:
  "truthy (lookup order_request ''amount'') \<and> truthy (lookup order_request ''customerId'')
   \<and> fst (create_order (stub_runtime (Inr tokenless_success_response)) demo_env order_request) =
        Json 200 (JObj
          [(''mid'', JStr ''MID123''),
           (''orderId'', JStr ''ORDER_1700000000000_250''),
           (''amount'', JNum 100),
           (''txnToken'', JUndefined),
           (''callbackUrl'', JStr ''https://shop.test/api/paytm/callback''),
           (''env'', JUndefined)])"
  by (simp add: handler_defs stub_defs)

section \<open>What is signed is what is sent\<close>



section \<open>The merchant key and the caller\<close>




end
